theory Spec2Isabelle
  imports Complex_Main
begin

section \<open>JavaScript numbers\<close>

text \<open>
  A JavaScript number is an IEEE 754 double. A finite double is represented by the rational
  it denotes; \<open>NaN\<close> and the two infinities are separate values. The sign of zero is not
  represented: no operation used by the trading engine (\<open>*\<close>, \<open>Math.floor\<close>, \<open><\<close>,
  \<open>toString\<close>) tells \<open>-0\<close> from \<open>0\<close>.
\<close>

datatype number = Num rat | NaN | PosInf | NegInf

fun bit_length :: "nat \<Rightarrow> nat" where
  "bit_length n = (if n = 0 then 0 else Suc (bit_length (n div 2)))"

declare bit_length.simps [simp del]

definition pow2 :: "int \<Rightarrow> rat" where
  "pow2 e = (if 0 \<le> e then 2 ^ nat e else 1 / 2 ^ nat (- e))"

text \<open>\<open>ilog2 x\<close> is the binary exponent of a positive rational: \<open>2^e \<le> x < 2^(e+1)\<close>.\<close>

definition ilog2 :: "rat \<Rightarrow> int" where
  "ilog2 x =
     (if 1 \<le> x then int (bit_length (nat \<lfloor>x\<rfloor>)) - 1
      else - int (bit_length (nat (\<lceil>1 / x\<rceil> - 1))))"

definition round_half_even :: "rat \<Rightarrow> int" where
  "round_half_even x =
     (let f = \<lfloor>x\<rfloor>; r = x - of_int f
      in if r < 1 / 2 then f
         else if 1 / 2 < r then f + 1
         else if even f then f else f + 1)"

text \<open>
  Rounding of an exact result to the nearest double, ties to even: 53 bits of significand,
  least exponent \<open>-1074\<close> (subnormals), overflow to an infinity from \<open>2^1024\<close> on.
\<close>

definition round_double :: "rat \<Rightarrow> number" where
  "round_double x =
     (if x = 0 then Num 0
      else
        let a = \<bar>x\<bar>;
            e = ilog2 a;
            q = max (e - 52) (- 1074);
            m = round_half_even (a / pow2 q);
            r = of_int m * pow2 q
        in if pow2 1024 \<le> r then (if 0 < x then PosInf else NegInf)
           else Num (sgn x * r))"

fun sign_of :: "number \<Rightarrow> int" where
  "sign_of (Num r) = (if 0 < r then 1 else if r < 0 then - 1 else 0)"
| "sign_of NaN = 0"
| "sign_of PosInf = 1"
| "sign_of NegInf = - 1"

text \<open>The operator \<open>*\<close> on numbers.\<close>

fun js_mul :: "number \<Rightarrow> number \<Rightarrow> number" where
  "js_mul NaN y = NaN"
| "js_mul x NaN = NaN"
| "js_mul (Num a) (Num b) = round_double (a * b)"
| "js_mul x y =
     (let s = sign_of x * sign_of y
      in if s = 0 then NaN else if 0 < s then PosInf else NegInf)"

text \<open>The operator \<open><\<close> on numbers: every comparison with \<open>NaN\<close> is false.\<close>

fun js_lt :: "number \<Rightarrow> number \<Rightarrow> bool" where
  "js_lt NaN y = False"
| "js_lt x NaN = False"
| "js_lt (Num a) (Num b) = (a < b)"
| "js_lt x PosInf = (x \<noteq> PosInf)"
| "js_lt NegInf y = (y \<noteq> NegInf)"
| "js_lt x y = False"

fun Math_floor :: "number \<Rightarrow> number" where
  "Math_floor (Num r) = Num (of_int \<lfloor>r\<rfloor>)"
| "Math_floor x = x"

section \<open>Configuration\<close>

text \<open>The object \<open>CONFIG\<close>; \<open>0.1\<close> is the double nearest to one tenth.\<close>

definition UPBIT_API_URL :: string where
  "UPBIT_API_URL = ''https://api.upbit.com''"

definition TRADING_SYMBOL :: string where
  "TRADING_SYMBOL = ''KRW-ETH''"

definition BUY_PERCENTAGE :: number where
  "BUY_PERCENTAGE = Num (3602879701896397 / 36028797018963968)"

definition MIN_ORDER_AMOUNT :: number where
  "MIN_ORDER_AMOUNT = Num 5000"

definition DUPLICATE_PREVENTION_HOURS :: int where
  "DUPLICATE_PREVENTION_HOURS = 1"

section \<open>Data\<close>

text \<open>A thrown value: an \<open>Error\<close> object (or a \<open>TypeError\<close>) with its message.\<close>

datatype js_error = Error (message: string) | TypeError (message: string)

text \<open>
  The exchange's answers. An account carries the number that \<open>parseFloat\<close> reads from its
  balance field. An order carries its \<open>uuid\<close> if the reply has one (\<open>None\<close>: reading it
  gives \<open>undefined\<close>), and the time value (milliseconds since the epoch) of
  \<open>new Date(order.created_at)\<close>, \<open>None\<close> for an invalid date.
\<close>

record account =
  currency :: string
  balance :: number

record upbit_order =
  uuid :: "string option"
  side :: string
  state :: string
  created_at :: "int option"

text \<open>
  Hashing and signing are symbolic: \<open>SHA512_hex s\<close> is the hex digest of \<open>s\<close>, and
  \<open>JWT p k o\<close> is the token that \<open>jwt.sign(p, k, o)\<close> returns. A hex digest is never
  the empty string, so the test \<open>if (queryHash)\<close> of \<open>generateJWT\<close> only tells a digest
  from \<open>null\<close>.
\<close>

datatype digest = SHA512_hex string

record jwt_payload =
  access_key :: string
  nonce :: string
  query_hash :: "digest option"
  query_hash_alg :: "string option"

record sign_options =
  algorithm :: string
  header :: "(string \<times> string) list"

datatype token = JWT jwt_payload string sign_options

datatype header_value = Plain string | Bearer token

text \<open>
  The argument of \<open>axios\<close>. Parameters are an association list in the order of
  \<open>Object.keys\<close>, their values as the strings that \<open>ToString\<close> gives.
\<close>

record request =
  http_method :: string
  url :: string
  headers :: "(string \<times> header_value) list"
  data :: "(string \<times> string) list option"

text \<open>
  The fields of \<open>UpbitAPI\<close>. The keys come from the environment; the empty string stands
  for a key that is empty or not set.
\<close>

record upbit_api =
  accessKey :: string
  secretKey :: string
  baseUrl :: string

definition new_UpbitAPI :: "string \<Rightarrow> string \<Rightarrow> upbit_api" where
  "new_UpbitAPI access secret =
     \<lparr>accessKey = access, secretKey = secret, baseUrl = UPBIT_API_URL\<rparr>"

text \<open>
  What \<open>Date.now()\<close> returns: the milliseconds elapsed since the epoch, a time value of
  the \<open>Date\<close> range.
\<close>

typedef epoch_ms = "{t :: int. 0 \<le> t \<and> t \<le> 8640000000000000}"
  by (rule exI [of _ 0]) simp

text \<open>
  Everything outside the program: the \<open>n\<close>-th value of \<open>crypto.randomUUID()\<close>, the
  runtime's \<open>Number.prototype.toString\<close>, the value of \<open>Date.now()\<close>, and the outcome of
  the HTTP round trip for each of the three endpoints (\<open>Inl\<close>: \<open>axios\<close> threw, or the
  body was not an array where the code calls \<open>find\<close> or \<open>filter\<close> on it, or was
  \<open>null\<close> where the code reads \<open>uuid\<close> from it).
\<close>

record world =
  randomUUID :: "nat \<Rightarrow> string"
  toString :: "number \<Rightarrow> string"
  now :: epoch_ms
  axios_accounts :: "request \<Rightarrow> js_error + account list"
  axios_orders :: "request \<Rightarrow> js_error + upbit_order list"
  axios_order :: "request \<Rightarrow> js_error + upbit_order"

text \<open>The effects of a run: the requests handed to \<open>axios\<close>, oldest first, and the
  number of UUIDs drawn so far.\<close>

record io =
  sent :: "request list"
  uuids_drawn :: nat

record ExecutionResult =
  success :: bool
  orderId :: "string option"
  amount :: "number option"
  reason :: "string option"
  error :: "string option"

record webhook =
  action :: string
  symbol :: string

section \<open>UpbitAPI\<close>

text \<open>
  \<open>encodeURIComponent\<close> on a string given as its UTF-8 bytes: the unreserved characters
  stay, every other byte becomes \<open>%XX\<close>.
\<close>

definition uri_unreserved :: "char \<Rightarrow> bool" where
  "uri_unreserved c \<longleftrightarrow>
     c \<in> set (''ABCDEFGHIJKLMNOPQRSTUVWXYZabcdefghijklmnopqrstuvwxyz0123456789-_.!~*()'' @ [CHR 0x27])"

definition hex_digit :: "nat \<Rightarrow> char" where
  "hex_digit n = ''0123456789ABCDEF'' ! (n mod 16)"

definition encodeURIComponent :: "string \<Rightarrow> string" where
  "encodeURIComponent s =
     concat (map (\<lambda>c. if uri_unreserved c then [c]
                        else [CHR ''%'', hex_digit (of_char c div 16), hex_digit (of_char c)]) s)"

fun join :: "string \<Rightarrow> string list \<Rightarrow> string" where
  "join sep [] = []"
| "join sep [x] = x"
| "join sep (x # y # ys) = x @ sep @ join sep (y # ys)"

definition query_string :: "(string \<times> string) list \<Rightarrow> string" where
  "query_string params = join ''&'' (map (\<lambda>(key, v). key @ ''='' @ encodeURIComponent v) params)"

text \<open>
  \<open>jwt.sign\<close> of the library jsonwebtoken, as far as the program can observe it: without a
  secret it throws, otherwise it returns the token.
\<close>

definition jwt_sign :: "jwt_payload \<Rightarrow> string \<Rightarrow> sign_options \<Rightarrow> js_error + token" where
  "jwt_sign payload secretOrPrivateKey opts =
     (if secretOrPrivateKey = [] then Inl (Error ''secretOrPrivateKey must have a value'')
      else Inr (JWT payload secretOrPrivateKey opts))"

definition generateJWT ::
    "world \<Rightarrow> upbit_api \<Rightarrow> digest option \<Rightarrow> io \<Rightarrow> (js_error + header_value) \<times> io" where
  "generateJWT w api queryHash st =
     (let payload = \<lparr>access_key = accessKey api, nonce = randomUUID w (uuids_drawn st),
                      query_hash = None, query_hash_alg = None\<rparr>;
          st' = st\<lparr>uuids_drawn := Suc (uuids_drawn st)\<rparr>;
          payload = (case queryHash of
                       None \<Rightarrow> payload
                     | Some h \<Rightarrow> payload\<lparr>query_hash := Some h, query_hash_alg := Some ''SHA512''\<rparr>)
      in case jwt_sign payload (secretKey api)
                \<lparr>algorithm = ''HS512'', header = [(''alg'', ''HS512''), (''typ'', ''JWT'')]\<rparr> of
           Inl e \<Rightarrow> (Inl e, st')
         | Inr token \<Rightarrow> (Inr (Bearer token), st'))"

text \<open>
  Lines 51 to 81 of \<open>makeRequest\<close>: the request that is handed to \<open>axios\<close>, or what
  \<open>generateJWT\<close> throws.
\<close>

definition build_request ::
    "world \<Rightarrow> upbit_api \<Rightarrow> string \<Rightarrow> string \<Rightarrow> (string \<times> string) list \<Rightarrow> bool \<Rightarrow> io \<Rightarrow>
       (js_error + request) \<times> io" where
  "build_request w api meth endpoint params requiresAuth st =
     (let url0 = baseUrl api @ endpoint;
          headers0 = [(''Content-Type'', Plain ''application/json'')]
      in if requiresAuth then
           (let (queryString, url1, data1, queryHash) =
                  (if params \<noteq> [] then
                     (let queryString = query_string params
                      in (queryString,
                          if meth = ''GET'' then url0 @ ''?'' @ queryString else url0,
                          if meth = ''GET'' then None else Some params,
                          if queryString \<noteq> [] then Some (SHA512_hex queryString) else None))
                   else ([], url0, None, None))
            in case generateJWT w api queryHash st of
                 (Inl e, st') \<Rightarrow> (Inl e, st')
               | (Inr auth, st') \<Rightarrow>
                   (Inr \<lparr>http_method = meth, url = url1,
                          headers = headers0 @ [(''Authorization'', auth)], data = data1\<rparr>, st'))
         else if meth = ''GET'' \<and> params \<noteq> [] then
           (Inr \<lparr>http_method = meth, url = url0 @ ''?'' @ query_string params,
                  headers = headers0, data = None\<rparr>, st)
         else (Inr \<lparr>http_method = meth, url = url0, headers = headers0, data = None\<rparr>, st))"

text \<open>
  \<open>makeRequest\<close>: what is thrown while the request is built leaves the function before
  \<open>axios\<close> is called; what \<open>axios\<close> throws is thrown again.
\<close>

definition makeRequest ::
    "world \<Rightarrow> upbit_api \<Rightarrow> (request \<Rightarrow> js_error + 'r) \<Rightarrow> string \<Rightarrow> string \<Rightarrow>
       (string \<times> string) list \<Rightarrow> bool \<Rightarrow> io \<Rightarrow> (js_error + 'r) \<times> io" where
  "makeRequest w api axios meth endpoint params requiresAuth st =
     (case build_request w api meth endpoint params requiresAuth st of
        (Inl e, st') \<Rightarrow> (Inl e, st')
      | (Inr req, st') \<Rightarrow> (axios req, st'\<lparr>sent := sent st' @ [req]\<rparr>))"

definition getAccounts :: "world \<Rightarrow> upbit_api \<Rightarrow> io \<Rightarrow> (js_error + account list) \<times> io" where
  "getAccounts w api st = makeRequest w api (axios_accounts w) ''GET'' ''/v1/accounts'' [] True st"

definition getKrwBalance :: "world \<Rightarrow> upbit_api \<Rightarrow> io \<Rightarrow> (js_error + number) \<times> io" where
  "getKrwBalance w api st =
     (case getAccounts w api st of
        (Inl e, st') \<Rightarrow> (Inl e, st')
      | (Inr accounts, st') \<Rightarrow>
          (case find (\<lambda>a. currency a = ''KRW'') accounts of
             Some krwAccount \<Rightarrow> (Inr (balance krwAccount), st')
           | None \<Rightarrow> (Inr (Num 0), st')))"

definition minimum_message :: "world \<Rightarrow> string" where
  "minimum_message w =
     [CHR 0xEC, CHR 0xB5, CHR 0x9C, CHR 0xEC, CHR 0x86, CHR 0x8C, CHR 0x20, CHR 0xEC, CHR 0xA3,
      CHR 0xBC, CHR 0xEB, CHR 0xAC, CHR 0xB8, CHR 0x20, CHR 0xEA, CHR 0xB8, CHR 0x88, CHR 0xEC,
      CHR 0x95, CHR 0xA1, CHR 0x20]
     @ toString w MIN_ORDER_AMOUNT @
     [CHR 0xEC, CHR 0x9B, CHR 0x90, CHR 0x20, CHR 0xEC, CHR 0x9D, CHR 0xB4, CHR 0xEC, CHR 0x83,
      CHR 0x81, CHR 0xEC, CHR 0x9D, CHR 0xB4, CHR 0xEC, CHR 0x96, CHR 0xB4, CHR 0xEC, CHR 0x95,
      CHR 0xBC, CHR 0x20, CHR 0xED, CHR 0x95, CHR 0xA9, CHR 0xEB, CHR 0x8B, CHR 0x88, CHR 0xEB,
      CHR 0x8B, CHR 0xA4, CHR 0x2E]"

definition placeBuyOrder ::
    "world \<Rightarrow> upbit_api \<Rightarrow> string \<Rightarrow> number \<Rightarrow> io \<Rightarrow> (js_error + upbit_order) \<times> io" where
  "placeBuyOrder w api market price st =
     (if js_lt price MIN_ORDER_AMOUNT then (Inl (Error (minimum_message w)), st)
      else makeRequest w api (axios_order w) ''POST'' ''/v1/orders''
             [(''market'', market), (''side'', ''bid''), (''ord_type'', ''price''),
              (''price'', toString w price)] True st)"

text \<open>
  \<open>new Date(t)\<close> for a number \<open>t\<close> of milliseconds: the time value of the date, \<open>None\<close>
  for the invalid date that a number outside the \<open>Date\<close> range gives.
\<close>

definition new_Date :: "int \<Rightarrow> int option" where
  "new_Date t = (if \<bar>t\<bar> \<le> 8640000000000000 then Some t else None)"

text \<open>The operator \<open>>=\<close> on two dates: false when either one is invalid.\<close>

definition date_ge :: "int option \<Rightarrow> int option \<Rightarrow> bool" where
  "date_ge d1 d2 =
     (case d1 of
        None \<Rightarrow> False
      | Some t1 \<Rightarrow> (case d2 of None \<Rightarrow> False | Some t2 \<Rightarrow> t2 \<le> t1))"

definition Date_now :: "world \<Rightarrow> int" where
  "Date_now w = Rep_epoch_ms (now w)"

text \<open>\<open>getRecentOrders\<close>, lines 134 to 139: the request for the last 100 finished orders.\<close>

definition fetch_orders ::
    "world \<Rightarrow> upbit_api \<Rightarrow> string \<Rightarrow> io \<Rightarrow> (js_error + upbit_order list) \<times> io" where
  "fetch_orders w api market st =
     makeRequest w api (axios_orders w) ''GET'' ''/v1/orders''
       [(''market'', market), (''states'', ''done,cancel''), (''limit'', ''100'')] True st"

text \<open>
  \<open>getRecentOrders\<close>, lines 141 to 145: the filter on the creation time. The window is a
  whole number of hours; on whole numbers the arithmetic of doubles gives the cut-off that
  this arithmetic of integers gives, or one outside the \<open>Date\<close> range where this one is.
\<close>

definition recent_of :: "int \<Rightarrow> int \<Rightarrow> upbit_order list \<Rightarrow> upbit_order list" where
  "recent_of now_ms hours orders =
     (let cutoffTime = new_Date (now_ms - hours * 60 * 60 * 1000)
      in filter (\<lambda>ord. let orderTime = created_at ord in date_ge orderTime cutoffTime) orders)"

definition getRecentOrders ::
    "world \<Rightarrow> upbit_api \<Rightarrow> string \<Rightarrow> int \<Rightarrow> io \<Rightarrow> (js_error + upbit_order list) \<times> io" where
  "getRecentOrders w api market hours st =
     (case fetch_orders w api market st of
        (Inl e, st') \<Rightarrow> (Inl e, st')
      | (Inr orders, st') \<Rightarrow> (Inr (recent_of (Date_now w) hours orders), st'))"

section \<open>TradingEngine\<close>

definition checkDuplicateBuy :: "world \<Rightarrow> upbit_api \<Rightarrow> io \<Rightarrow> bool \<times> io" where
  "checkDuplicateBuy w api st =
     (case getRecentOrders w api TRADING_SYMBOL DUPLICATE_PREVENTION_HOURS st of
        (Inl e, st') \<Rightarrow> (False, st')
      | (Inr recentOrders, st') \<Rightarrow>
          (let buyOrders = filter (\<lambda>ord. side ord = ''bid'' \<and> state ord = ''done'') recentOrders
           in (0 < length buyOrders, st')))"

definition insufficient_message :: "world \<Rightarrow> number \<Rightarrow> string" where
  "insufficient_message w buyAmount =
     [CHR 0xEC, CHR 0x9E, CHR 0x94, CHR 0xEA, CHR 0xB3, CHR 0xA0, CHR 0x20, CHR 0xEB, CHR 0xB6,
      CHR 0x80, CHR 0xEC, CHR 0xA1, CHR 0xB1, CHR 0x3A, CHR 0x20]
     @ toString w buyAmount @
     [CHR 0xEC, CHR 0x9B, CHR 0x90, CHR 0x20, CHR 0x28, CHR 0xEC, CHR 0xB5, CHR 0x9C, CHR 0xEC,
      CHR 0x86, CHR 0x8C, CHR 0x20]
     @ toString w MIN_ORDER_AMOUNT @
     [CHR 0xEC, CHR 0x9B, CHR 0x90, CHR 0x29]"

definition duplicate_reason :: string where
  "duplicate_reason =
     [CHR 0xEC, CHR 0xA4, CHR 0x91, CHR 0xEB, CHR 0xB3, CHR 0xB5, CHR 0x20, CHR 0xEB, CHR 0xA7,
      CHR 0xA4, CHR 0xEC, CHR 0x88, CHR 0x98, CHR 0x20, CHR 0xEB, CHR 0xB0, CHR 0xA9, CHR 0xEC,
      CHR 0xA7, CHR 0x80]"

definition failure :: "js_error \<Rightarrow> ExecutionResult" where
  "failure e = \<lparr>success = False, orderId = None, amount = None, reason = None,
                 error = Some (message e)\<rparr>"

definition buy_amount :: "number \<Rightarrow> number" where
  "buy_amount krwBalance = Math_floor (js_mul krwBalance BUY_PERCENTAGE)"


text \<open>The body of the \<open>try\<close> block of \<open>executeBuy\<close>: \<open>Inl\<close> is a value thrown inside it.\<close>

definition executeBuy_try :: "world \<Rightarrow> upbit_api \<Rightarrow> io \<Rightarrow> (js_error + ExecutionResult) \<times> io" where
  "executeBuy_try w api st =
     (case getKrwBalance w api st of
        (Inl e, st1) \<Rightarrow> (Inl e, st1)
      | (Inr krwBalance, st1) \<Rightarrow>
          (let buyAmount = buy_amount krwBalance
           in if js_lt buyAmount MIN_ORDER_AMOUNT
              then (Inl (Error (insufficient_message w buyAmount)), st1)
              else
                (case checkDuplicateBuy w api st1 of
                   (isDuplicate, st2) \<Rightarrow>
                     if isDuplicate
                     then (Inr \<lparr>success = False, orderId = None, amount = None,
                                 reason = Some duplicate_reason, error = None\<rparr>, st2)
                     else
                       (case placeBuyOrder w api TRADING_SYMBOL buyAmount st2 of
                          (Inl e, st3) \<Rightarrow> (Inl e, st3)
                        | (Inr result, st3) \<Rightarrow>
                            (Inr \<lparr>success = True, orderId = uuid result,
                                   amount = Some buyAmount, reason = None, error = None\<rparr>, st3)))))"

text \<open>
  \<open>executeBuy\<close>. The execution id is only logged and is left out. Reading
  \<open>webhookData.symbol\<close> for the first log line comes before the \<open>try\<close>: on \<open>null\<close> or
  \<open>undefined\<close> (\<open>None\<close>) it throws and the call is rejected; the message shown is the one
  for \<open>undefined\<close>.
  Inside the \<open>try\<close>, every thrown value is turned into a result by the \<open>catch\<close>.
\<close>

definition executeBuy ::
    "world \<Rightarrow> upbit_api \<Rightarrow> webhook option \<Rightarrow> io \<Rightarrow> (js_error + ExecutionResult) \<times> io" where
  "executeBuy w api webhookData st =
     (case webhookData of
        None \<Rightarrow> (Inl (TypeError ''Cannot read properties of undefined (reading 'symbol')''), st)
      | Some signal \<Rightarrow>
          (case executeBuy_try w api st of
             (Inr r, st') \<Rightarrow> (Inr r, st')
           | (Inl e, st') \<Rightarrow> (Inr (failure e), st')))"

section \<open>Observing a run\<close>

text \<open>The requests handed to \<open>axios\<close> between two states of a run, oldest first.\<close>

definition calls_between :: "io \<Rightarrow> io \<Rightarrow> request list" where
  "calls_between st st' = drop (length (sent st)) (sent st')"

definition is_place_order :: "upbit_api \<Rightarrow> request \<Rightarrow> bool" where
  "is_place_order api r \<longleftrightarrow> http_method r = ''POST'' \<and> url r = baseUrl api @ ''/v1/orders''"

definition is_balance_fetch :: "upbit_api \<Rightarrow> request \<Rightarrow> bool" where
  "is_balance_fetch api r \<longleftrightarrow> http_method r = ''GET'' \<and> url r = baseUrl api @ ''/v1/accounts''"

definition is_orders_lookup :: "upbit_api \<Rightarrow> request \<Rightarrow> bool" where
  "is_orders_lookup api r \<longleftrightarrow>
     http_method r = ''GET'' \<and> take (length (baseUrl api) + 11) (url r) = baseUrl api @ ''/v1/orders?''"

text \<open>The claims that a request's \<open>Authorization\<close> header signs, if it has one.\<close>

fun token_payload :: "header_value \<Rightarrow> jwt_payload option" where
  "token_payload (Bearer (JWT payload secret opts)) = Some payload"
| "token_payload (Plain s) = None"

definition signed_payload :: "request \<Rightarrow> jwt_payload option" where
  "signed_payload r =
     (case map_of (headers r) ''Authorization'' of
        None \<Rightarrow> None
      | Some v \<Rightarrow> token_payload v)"

section \<open>Scenarios\<close>

text \<open>
  Concrete worlds for the examples. \<open>show_number\<close> is \<open>Number.prototype.toString\<close> on the
  values the examples print: integers of magnitude below \<open>10^21\<close>, \<open>NaN\<close> and the infinities.
\<close>

fun digits :: "nat \<Rightarrow> string" where
  "digits n =
     (if n < 10 then [''0123456789'' ! n] else digits (n div 10) @ [''0123456789'' ! (n mod 10)])"

declare digits.simps [simp del]

fun show_number :: "number \<Rightarrow> string" where
  "show_number (Num r) = (if r < 0 then ''-'' else []) @ digits (nat \<bar>\<lfloor>r\<rfloor>\<bar>)"
| "show_number NaN = ''NaN''"
| "show_number PosInf = ''Infinity''"
| "show_number NegInf = ''-Infinity''"

text \<open>
  The exchange holds two accounts, the second one in KRW with the given balance; it answers
  the order lookup and the order placement as given. The clock stands at
  2023-11-14T22:13:20Z.
\<close>

definition clock_2023 :: epoch_ms where
  "clock_2023 = Abs_epoch_ms 1700000000000"

definition scenario ::
    "number \<Rightarrow> js_error + upbit_order list \<Rightarrow> js_error + upbit_order \<Rightarrow> world" where
  "scenario krw lookup placed =
     \<lparr>randomUUID = (\<lambda>n. ''nonce-'' @ digits n),
      toString = show_number,
      now = clock_2023,
      axios_accounts = (\<lambda>r. Inr [\<lparr>currency = ''BTC'', balance = Num 1\<rparr>,
                                   \<lparr>currency = ''KRW'', balance = krw\<rparr>]),
      axios_orders = (\<lambda>r. lookup),
      axios_order = (\<lambda>r. placed)\<rparr>"

definition bought :: "int \<Rightarrow> upbit_order" where
  "bought t = \<lparr>uuid = Some ''f00d'', side = ''bid'', state = ''done'', created_at = Some t\<rparr>"

definition created :: upbit_order where
  "created = \<lparr>uuid = Some ''abc-123'', side = ''bid'', state = ''wait'', created_at = Some 1700000000123\<rparr>"

definition trader :: upbit_api where
  "trader = new_UpbitAPI ''access'' ''secret''"

definition start :: io where
  "start = \<lparr>sent = [], uuids_drawn = 0\<rparr>"

definition buy_signal :: webhook where
  "buy_signal = \<lparr>action = ''BUY'', symbol = ''KRW-ETH''\<rparr>"

section \<open>Evaluation of concrete numbers\<close>

lemma floor_numeral_div: "\<lfloor>(numeral a :: rat) / numeral b\<rfloor> = numeral a div numeral b"
  using floor_divide_of_int_eq [of "numeral a" "numeral b", where ?'a = rat] by simp

lemma bit_length_0: "bit_length 0 = 0"
  by (simp add: bit_length.simps)

lemma bit_length_1: "bit_length (Suc 0) = Suc 0"
  by (simp add: bit_length.simps)

lemma bit_length_numeral: "bit_length (numeral k) = Suc (bit_length (numeral k div 2))"
  by (subst bit_length.simps) simp

lemmas double_eval = buy_amount_def BUY_PERCENTAGE_def MIN_ORDER_AMOUNT_def round_double_def
  ilog2_def round_half_even_def pow2_def Let_def floor_numeral_div
  bit_length_0 bit_length_1 bit_length_numeral

lemma digits_0: "digits 0 = ''0''"
  by (simp add: digits.simps)

lemma digits_1: "digits (Suc 0) = ''1''"
  by (simp add: digits.simps)

lemma digits_numeral:
  "digits (numeral k) =
     (if (numeral k :: nat) < 10 then [''0123456789'' ! numeral k]
      else digits (numeral k div 10) @ [''0123456789'' ! (numeral k mod 10)])"
  by (subst digits.simps) simp

lemmas digits_eval = digits_0 digits_1 digits_numeral

section \<open>The requests of each operation\<close>

lemma query_string_empty: "query_string params = [] \<longleftrightarrow> params = []"
proof (cases params)
  case Nil
  then show ?thesis by (simp add: query_string_def)
next
  case (Cons p ps)
  obtain k v where p: "p = (k, v)" by (cases p)
  show ?thesis
    by (cases ps) (simp_all add: Cons p query_string_def)
qed

lemma makeRequest_auth:
  assumes "makeRequest w api axios meth endpoint params True st = (res, st')"
    and "secretKey api \<noteq> []"
  shows "\<exists>r. res = axios r \<and> sent st' = sent st @ [r] \<and> http_method r = meth
           \<and> uuids_drawn st' = Suc (uuids_drawn st)
           \<and> url r = (if params \<noteq> [] \<and> meth = ''GET''
                      then baseUrl api @ endpoint @ ''?'' @ query_string params
                      else baseUrl api @ endpoint)
           \<and> data r = (if params \<noteq> [] \<and> meth \<noteq> ''GET'' then Some params else None)"
  using assms
  by (auto simp: makeRequest_def build_request_def generateJWT_def jwt_sign_def Let_def
        split: if_splits)

lemma makeRequest_unsigned:
  assumes "makeRequest w api axios meth endpoint params True st = (res, st')"
    and "secretKey api = []"
  shows "res = Inl (Error ''secretOrPrivateKey must have a value'') \<and> sent st' = sent st
           \<and> uuids_drawn st' = Suc (uuids_drawn st)"
  using assms
  by (auto simp: makeRequest_def build_request_def generateJWT_def jwt_sign_def Let_def
        split: if_splits)

lemma makeRequest_key:
  assumes "makeRequest w api axios meth endpoint params True st = (Inr x, st')"
  shows "secretKey api \<noteq> []"
  using makeRequest_unsigned [OF assms] by auto

lemma getKrwBalance_key:
  assumes "getKrwBalance w api st = (Inr b, st1)"
  shows "secretKey api \<noteq> []"
proof
  assume empty: "secretKey api = []"
  obtain res0 st0 where call: "getAccounts w api st = (res0, st0)"
    by (cases "getAccounts w api st")
  then have "res0 = Inl (Error ''secretOrPrivateKey must have a value'')"
    unfolding getAccounts_def using makeRequest_unsigned [OF _ empty] by blast
  with call assms show False
    by (simp add: getKrwBalance_def)
qed

lemma getKrwBalance_calls:
  assumes "getKrwBalance w api st = (res, st1)"
    and "secretKey api \<noteq> []"
  shows "\<exists>r. sent st1 = sent st @ [r] \<and> is_balance_fetch api r"
proof -
  obtain res0 where "getAccounts w api st = (res0, st1)"
    using assms(1) by (auto simp: getKrwBalance_def split: prod.splits sum.splits option.splits)
  then show ?thesis
    unfolding getAccounts_def
    by (auto dest!: makeRequest_auth [OF _ assms(2)] simp: is_balance_fetch_def)
qed

lemma getKrwBalance_unsigned:
  assumes "getKrwBalance w api st = (res, st1)"
    and "secretKey api = []"
  shows "res = Inl (Error ''secretOrPrivateKey must have a value'') \<and> sent st1 = sent st"
proof -
  obtain res0 st0 where call: "getAccounts w api st = (res0, st0)"
    by (cases "getAccounts w api st")
  then have "res0 = Inl (Error ''secretOrPrivateKey must have a value'') \<and> sent st0 = sent st"
    unfolding getAccounts_def using makeRequest_unsigned [OF _ assms(2)] by blast
  with call assms(1) show ?thesis
    by (auto simp: getKrwBalance_def)
qed

lemma fetch_orders_calls:
  assumes "fetch_orders w api market st = (res, st')"
    and "secretKey api \<noteq> []"
  shows "\<exists>r. sent st' = sent st @ [r] \<and> is_orders_lookup api r \<and> \<not> is_place_order api r"
  using assms(1) unfolding fetch_orders_def
  by (auto dest!: makeRequest_auth [OF _ assms(2)] simp: is_orders_lookup_def is_place_order_def)

lemma checkDuplicateBuy_calls:
  assumes "checkDuplicateBuy w api st = (d, st')"
    and "secretKey api \<noteq> []"
  shows "\<exists>r. sent st' = sent st @ [r] \<and> is_orders_lookup api r \<and> \<not> is_place_order api r"
proof -
  obtain res where "fetch_orders w api TRADING_SYMBOL st = (res, st')"
    using assms(1)
    by (auto simp: checkDuplicateBuy_def getRecentOrders_def split: prod.splits sum.splits)
  then show ?thesis by (rule fetch_orders_calls [OF _ assms(2)])
qed

lemma placeBuyOrder_calls:
  assumes "placeBuyOrder w api market price st = (res, st')"
    and "\<not> js_lt price MIN_ORDER_AMOUNT"
    and "secretKey api \<noteq> []"
  shows "\<exists>r. sent st' = sent st @ [r] \<and> is_place_order api r \<and> res = axios_order w r
           \<and> data r = Some [(''market'', market), (''side'', ''bid''), (''ord_type'', ''price''),
                                (''price'', toString w price)]"
  using assms(1,2) unfolding placeBuyOrder_def
  by (auto dest!: makeRequest_auth [OF _ assms(3)] simp: is_place_order_def)

lemma balance_fetch_not_place: "is_balance_fetch api r \<Longrightarrow> \<not> is_place_order api r"
  by (auto simp: is_balance_fetch_def is_place_order_def)

lemma balance_fetch_not_lookup: "is_balance_fetch api r \<Longrightarrow> \<not> is_orders_lookup api r"
  by (auto simp: is_balance_fetch_def is_orders_lookup_def)

lemma calls_between_self: "calls_between st st = []"
  by (simp add: calls_between_def)

lemma calls_between_app: "sent st' = sent st @ rs \<Longrightarrow> calls_between st st' = rs"
  by (simp add: calls_between_def)

section \<open>The duplicate check in terms of the lookup\<close>


lemma Date_now_range: "0 \<le> Date_now w \<and> Date_now w \<le> 8640000000000000"
  using Rep_epoch_ms [of "now w"] by (simp add: Date_now_def)

lemma checkDuplicateBuy_found:
  assumes "fetch_orders w api TRADING_SYMBOL st = (Inr orders, st')"
  shows "checkDuplicateBuy w api st =
           (\<exists>ord\<in>set orders. side ord = ''bid'' \<and> state ord = ''done''
               \<and> (\<exists>t. created_at ord = Some t \<and> Date_now w - 3600000 \<le> t), st')"
proof -
  have "new_Date (Date_now w - 1 * 60 * 60 * 1000) = Some (Date_now w - 3600000)"
    using Date_now_range [of w] by (auto simp: new_Date_def abs_le_iff)
  then show ?thesis
    using assms
    by (auto simp: checkDuplicateBuy_def getRecentOrders_def recent_of_def date_ge_def
          DUPLICATE_PREVENTION_HOURS_def Let_def filter_empty_conv split: option.splits)
qed

lemma getRecentOrders_found:
  assumes "fetch_orders w api market st = (Inr orders, st')"
  shows "getRecentOrders w api market hours st = (Inr (recent_of (Date_now w) hours orders), st')"
  using assms by (simp add: getRecentOrders_def)

section \<open>The paths of \<open>executeBuy\<close>\<close>

lemma executeBuy_balance_failed:
  assumes "getKrwBalance w api st = (Inl e, st1)"
  shows "executeBuy w api (Some signal) st = (Inr (failure e), st1)"
  using assms by (simp add: executeBuy_def executeBuy_try_def)

lemma executeBuy_insufficient:
  assumes "getKrwBalance w api st = (Inr b, st1)"
    and "js_lt (buy_amount b) MIN_ORDER_AMOUNT"
  shows "executeBuy w api (Some signal) st =
           (Inr (failure (Error (insufficient_message w (buy_amount b)))), st1)"
  using assms by (simp add: executeBuy_def executeBuy_try_def)

lemma executeBuy_duplicate:
  assumes "getKrwBalance w api st = (Inr b, st1)"
    and "\<not> js_lt (buy_amount b) MIN_ORDER_AMOUNT"
    and "checkDuplicateBuy w api st1 = (True, st2)"
  shows "executeBuy w api (Some signal) st =
           (Inr \<lparr>success = False, orderId = None, amount = None,
                  reason = Some duplicate_reason, error = None\<rparr>, st2)"
  using assms by (simp add: executeBuy_def executeBuy_try_def)

lemma executeBuy_placed:
  assumes "getKrwBalance w api st = (Inr b, st1)"
    and "\<not> js_lt (buy_amount b) MIN_ORDER_AMOUNT"
    and "checkDuplicateBuy w api st1 = (False, st2)"
    and "placeBuyOrder w api TRADING_SYMBOL (buy_amount b) st2 = (res, st3)"
  shows "executeBuy w api (Some signal) st =
           (Inr (case res of
                   Inl e \<Rightarrow> failure e
                 | Inr result \<Rightarrow> \<lparr>success = True, orderId = uuid result,
                                   amount = Some (buy_amount b), reason = None, error = None\<rparr>),
            st3)"
  using assms by (simp add: executeBuy_def executeBuy_try_def split: sum.splits)

lemma executeBuy_paths:
  assumes "executeBuy w api (Some signal) st = (Inr r, st')"
  obtains (failed) e where "r = failure e"
      "filter (is_place_order api) (calls_between st st') = []"
    | (duplicate) "r = \<lparr>success = False, orderId = None, amount = None,
                          reason = Some duplicate_reason, error = None\<rparr>"
      "filter (is_place_order api) (calls_between st st') = []"
    | (placed) b st1 q where "getKrwBalance w api st = (Inr b, st1)"
      "\<not> js_lt (buy_amount b) MIN_ORDER_AMOUNT"
      "filter (is_place_order api) (calls_between st st') = [q]"
      "is_place_order api q"
      "data q = Some [(''market'', TRADING_SYMBOL), (''side'', ''bid''), (''ord_type'', ''price''),
                      (''price'', toString w (buy_amount b))]"
      "r = (case axios_order w q of
              Inl e \<Rightarrow> failure e
            | Inr result \<Rightarrow> \<lparr>success = True, orderId = uuid result,
                              amount = Some (buy_amount b), reason = None, error = None\<rparr>)"
proof -
  obtain rb st1 where bal: "getKrwBalance w api st = (rb, st1)"
    by (cases "getKrwBalance w api st")
  show thesis
  proof (cases "secretKey api = []")
    case True
    from getKrwBalance_unsigned [OF bal True]
    have rb: "rb = Inl (Error ''secretOrPrivateKey must have a value'')" and quiet: "sent st1 = sent st"
      by simp_all
    from executeBuy_balance_failed [OF bal [unfolded rb], of signal] assms
    have "r = failure (Error ''secretOrPrivateKey must have a value'')" "st' = st1"
      by simp_all
    then show thesis
      using quiet by (intro failed) (simp_all add: calls_between_def)
  next
    case key: False
    obtain r1 where r1: "sent st1 = sent st @ [r1]" "\<not> is_place_order api r1"
      using getKrwBalance_calls [OF bal key] balance_fetch_not_place by blast
    show thesis
    proof (cases rb)
      case (Inl e)
      from executeBuy_balance_failed [OF bal [unfolded Inl], of signal] assms
      have "r = failure e" "st' = st1"
        by simp_all
      then show thesis
        using r1 by (intro failed) (simp_all add: calls_between_def)
    next
      case (Inr b)
      note bal' = bal [unfolded Inr]
      show thesis
      proof (cases "js_lt (buy_amount b) MIN_ORDER_AMOUNT")
        case True
        from executeBuy_insufficient [OF bal' True, of signal] assms
        have "r = failure (Error (insufficient_message w (buy_amount b)))" "st' = st1"
          by simp_all
        then show thesis
          using r1 by (intro failed) (simp_all add: calls_between_def)
      next
        case enough: False
        obtain d st2 where dup: "checkDuplicateBuy w api st1 = (d, st2)"
          by (cases "checkDuplicateBuy w api st1")
        obtain r2 where r2: "sent st2 = sent st1 @ [r2]" "\<not> is_place_order api r2"
          using checkDuplicateBuy_calls [OF dup key] by blast
        show thesis
        proof (cases d)
          case True
          with dup have dup': "checkDuplicateBuy w api st1 = (True, st2)"
            by simp
          from executeBuy_duplicate [OF bal' enough dup', of signal] assms
          have "r = \<lparr>success = False, orderId = None, amount = None,
                       reason = Some duplicate_reason, error = None\<rparr>" "st' = st2"
            by simp_all
          then show thesis
            using r1 r2 by (intro duplicate) (simp_all add: calls_between_def)
        next
          case False
          with dup have dup': "checkDuplicateBuy w api st1 = (False, st2)"
            by simp
          obtain res st3 where place:
            "placeBuyOrder w api TRADING_SYMBOL (buy_amount b) st2 = (res, st3)"
            by (cases "placeBuyOrder w api TRADING_SYMBOL (buy_amount b) st2")
          obtain q where q: "sent st3 = sent st2 @ [q]" "is_place_order api q"
              "res = axios_order w q"
              "data q = Some [(''market'', TRADING_SYMBOL), (''side'', ''bid''),
                              (''ord_type'', ''price''), (''price'', toString w (buy_amount b))]"
            using placeBuyOrder_calls [OF place enough key] by blast
          from executeBuy_placed [OF bal' enough dup' place, of signal] assms
          have r: "r = (case axios_order w q of
                          Inl e \<Rightarrow> failure e
                        | Inr result \<Rightarrow> \<lparr>success = True, orderId = uuid result,
                                          amount = Some (buy_amount b), reason = None,
                                          error = None\<rparr>)"
            and st': "st' = st3"
            by (simp_all add: q(3))
          have "filter (is_place_order api) (calls_between st st') = [q]"
            using r1 r2 q st' by (simp add: calls_between_def)
          then show thesis
            using bal' enough q r by (intro placed)
        qed
      qed
    qed
  qed
qed

lemma executeBuy_returns:
  "\<exists>r st'. executeBuy w api (Some signal) st = (Inr r, st')"
  by (auto simp: executeBuy_def split: prod.splits sum.splits)

section \<open>The rounded product against the exact one\<close>







section \<open>Runs of the scenarios\<close>

lemma trader_key: "secretKey trader \<noteq> []"
  by (simp add: trader_def new_UpbitAPI_def)

lemma scenario_balance:
  "getKrwBalance (scenario krw lookup placed) trader st =
     (Inr krw, snd (getKrwBalance (scenario krw lookup placed) trader st))"
  by (simp add: getKrwBalance_def getAccounts_def makeRequest_def build_request_def
        generateJWT_def jwt_sign_def scenario_def trader_def new_UpbitAPI_def Let_def)

lemma scenario_lookup:
  "fetch_orders (scenario krw lookup placed) trader market st =
     (lookup, snd (fetch_orders (scenario krw lookup placed) trader market st))"
  by (simp add: fetch_orders_def makeRequest_def build_request_def generateJWT_def jwt_sign_def
        scenario_def trader_def new_UpbitAPI_def Let_def)

lemma scenario_place:
  assumes "\<not> js_lt price MIN_ORDER_AMOUNT"
  shows "placeBuyOrder (scenario krw lookup placed) trader market price st =
           (placed, snd (placeBuyOrder (scenario krw lookup placed) trader market price st))"
  using assms
  by (simp add: placeBuyOrder_def makeRequest_def build_request_def generateJWT_def jwt_sign_def
        scenario_def trader_def new_UpbitAPI_def Let_def)

lemma scenario_toString: "toString (scenario krw lookup placed) = show_number"
  by (simp add: scenario_def)

lemma scenario_now: "Date_now (scenario krw lookup placed) = 1700000000000"
  by (simp add: Date_now_def scenario_def clock_2023_def Abs_epoch_ms_inverse)

lemma buy_amount_50000: "buy_amount (Num 50000) = Num 5000"
  by (simp add: double_eval)

lemma buy_amount_49990: "buy_amount (Num 49990) = Num 4999"
  by (simp add: double_eval)


lemma scenario_no_history:
  "checkDuplicateBuy (scenario krw (Inr []) placed) trader st =
     (False, snd (fetch_orders (scenario krw (Inr []) placed) trader TRADING_SYMBOL st))"
  unfolding checkDuplicateBuy_found [OF scenario_lookup] by simp

lemma end_to_end_success:
  "fst (executeBuy (scenario (Num 50000) (Inr []) (Inr created)) trader (Some buy_signal) start) =
     Inr \<lparr>success = True, orderId = Some ''abc-123'', amount = Some (Num 5000),
           reason = None, error = None\<rparr>"
proof -
  have enough: "\<not> js_lt (buy_amount (Num 50000)) MIN_ORDER_AMOUNT"
    by (simp add: buy_amount_50000 MIN_ORDER_AMOUNT_def)
  show ?thesis
    by (subst executeBuy_placed [OF scenario_balance enough scenario_no_history
          scenario_place [OF enough]])
       (simp add: buy_amount_50000 created_def)
qed


lemma low_49990: "js_lt (buy_amount (Num 49990)) MIN_ORDER_AMOUNT"
  by (simp add: buy_amount_49990 MIN_ORDER_AMOUNT_def)

lemma insufficient_run:
  "fst (executeBuy (scenario (Num 49990) lookup placed) trader (Some buy_signal) start) =
     Inr \<lparr>success = False, orderId = None, amount = None, reason = None,
           error = Some (insufficient_message (scenario (Num 49990) lookup placed) (Num 4999))\<rparr>"
  by (subst executeBuy_insufficient [OF scenario_balance low_49990])
     (simp add: failure_def buy_amount_49990)

section \<open>Claims\<close>

text \<open>
  C1. For a signal that the route hands over (an object, \<open>Some signal\<close>), \<open>executeBuy\<close>
  never raises: it returns one \<open>ExecutionResult\<close>, and whatever is thrown inside its
  \<open>try\<close> block, by the balance fetch, the duplicate check or the order placement, comes back
  as the result \<open>{success: false, error: message}\<close>.
\<close>

theorem executeBuy_never_raises:
  "(\<exists>r st'. executeBuy w api (Some signal) st = (Inr r, st')) \<and>
   (\<forall>e st1. executeBuy_try w api st = (Inl e, st1) \<longrightarrow>
      executeBuy w api (Some signal) st =
        (Inr \<lparr>success = False, orderId = None, amount = None, reason = None,
               error = Some (message e)\<rparr>, st1))"
  by (auto simp: executeBuy_def failure_def split: prod.splits sum.splits)

theorem executeBuy_never_raises_witness:
  "(\<exists>r st'. executeBuy (scenario (Num 50000) (Inr []) (Inr created)\<lparr>axios_accounts := \<lambda>r. Inl (Error ''Network Error'')\<rparr>)
        trader (Some buy_signal) start = (Inr r, st')) \<and>
   fst (executeBuy (scenario (Num 50000) (Inr []) (Inr created)\<lparr>axios_accounts := \<lambda>r. Inl (Error ''Network Error'')\<rparr>)
        trader (Some buy_signal) start) =
     Inr \<lparr>success = False, orderId = None, amount = None, reason = None,
           error = Some ''Network Error''\<rparr>"
proof -
  let ?w = "scenario (Num 50000) (Inr []) (Inr created)\<lparr>axios_accounts := \<lambda>r. Inl (Error ''Network Error'')\<rparr>"
  have thrown: "executeBuy_try ?w trader start
      = (Inl (Error ''Network Error''), snd (executeBuy_try ?w trader start))"
    by (simp add: executeBuy_try_def getKrwBalance_def getAccounts_def makeRequest_def
          build_request_def generateJWT_def jwt_sign_def trader_def new_UpbitAPI_def Let_def)
  show ?thesis
    using executeBuy_never_raises [of ?w trader buy_signal start] thrown by auto
qed

text \<open>
  C3. When the balance fetch returns \<open>b\<close> and \<open>Math.floor(b * BUY_PERCENTAGE)\<close> is below
  \<open>MIN_ORDER_AMOUNT\<close>, \<open>executeBuy\<close> returns \<open>{success: false}\<close> with the
  insufficient-funds message in \<open>error\<close>, and no request of this run places an order.
\<close>

theorem insufficient_funds_no_order:
  assumes "getKrwBalance w api st = (Inr b, st1)"
    and "js_lt (Math_floor (js_mul b BUY_PERCENTAGE)) MIN_ORDER_AMOUNT"
  shows "\<exists>st'. executeBuy w api (Some signal) st =
           (Inr \<lparr>success = False, orderId = None, amount = None, reason = None,
                  error = Some (insufficient_message w (Math_floor (js_mul b BUY_PERCENTAGE)))\<rparr>,
            st')
         \<and> filter (is_place_order api) (calls_between st st') = []"
proof -
  from assms(2) have low: "js_lt (buy_amount b) MIN_ORDER_AMOUNT"
    by (simp add: buy_amount_def)
  obtain r where r: "sent st1 = sent st @ [r]" "is_balance_fetch api r"
    using getKrwBalance_calls [OF assms(1) getKrwBalance_key [OF assms(1)]] by blast
  have "filter (is_place_order api) (calls_between st st1) = []"
    using r by (simp add: calls_between_app [OF r(1)] balance_fetch_not_place)
  with executeBuy_insufficient [OF assms(1) low, of signal] show ?thesis
    by (auto simp: failure_def buy_amount_def)
qed

theorem insufficient_funds_no_order_witness:
  "\<exists>st'. executeBuy (scenario (Num 49990) (Inr []) (Inr created)) trader (Some buy_signal) start =
      (Inr \<lparr>success = False, orderId = None, amount = None, reason = None,
             error = Some ([CHR 0xEC, CHR 0x9E, CHR 0x94, CHR 0xEA, CHR 0xB3, CHR 0xA0, CHR 0x20,
                            CHR 0xEB, CHR 0xB6, CHR 0x80, CHR 0xEC, CHR 0xA1, CHR 0xB1, CHR 0x3A,
                            CHR 0x20] @ ''4999'' @
                           [CHR 0xEC, CHR 0x9B, CHR 0x90, CHR 0x20, CHR 0x28, CHR 0xEC, CHR 0xB5,
                            CHR 0x9C, CHR 0xEC, CHR 0x86, CHR 0x8C, CHR 0x20] @ ''5000'' @
                           [CHR 0xEC, CHR 0x9B, CHR 0x90, CHR 0x29])\<rparr>, st')
    \<and> filter (is_place_order trader) (calls_between start st') = []"
proof -
  let ?w = "scenario (Num 49990) (Inr []) (Inr created)"
  have amount: "Math_floor (js_mul (Num 49990) BUY_PERCENTAGE) = Num 4999"
    using buy_amount_49990 by (simp add: buy_amount_def)
  have low: "js_lt (Math_floor (js_mul (Num 49990) BUY_PERCENTAGE)) MIN_ORDER_AMOUNT"
    by (simp add: amount MIN_ORDER_AMOUNT_def)
  have msg: "insufficient_message ?w (Num 4999) =
      [CHR 0xEC, CHR 0x9E, CHR 0x94, CHR 0xEA, CHR 0xB3, CHR 0xA0, CHR 0x20,
       CHR 0xEB, CHR 0xB6, CHR 0x80, CHR 0xEC, CHR 0xA1, CHR 0xB1, CHR 0x3A, CHR 0x20] @ ''4999'' @
      [CHR 0xEC, CHR 0x9B, CHR 0x90, CHR 0x20, CHR 0x28, CHR 0xEC, CHR 0xB5,
       CHR 0x9C, CHR 0xEC, CHR 0x86, CHR 0x8C, CHR 0x20] @ ''5000'' @
      [CHR 0xEC, CHR 0x9B, CHR 0x90, CHR 0x29]"
    by (simp add: insufficient_message_def scenario_toString MIN_ORDER_AMOUNT_def digits_eval)
  have bal: "getKrwBalance ?w trader start = (Inr (Num 49990), snd (getKrwBalance ?w trader start))"
    by (rule scenario_balance)
  show ?thesis
    using insufficient_funds_no_order [OF bal low, of buy_signal]
    unfolding amount msg .
qed

text \<open>
  C9, as the code has it. Every result of \<open>executeBuy\<close> with \<open>success\<close> carries
  \<open>amount\<close>, and its \<open>orderId\<close> is the \<open>uuid\<close> of the reply to the placement request:
  present when the reply has one, nothing is checked. Every result without \<open>success\<close>
  carries \<open>reason\<close> or \<open>error\<close>.
\<close>

theorem result_shape:
  assumes "executeBuy w api webhookData st = (Inr r, st')"
  shows "(success r \<longrightarrow>
            amount r \<noteq> None \<and>
            (\<exists>q reply. q \<in> set (calls_between st st') \<and> is_place_order api q \<and>
               axios_order w q = Inr reply \<and> orderId r = uuid reply)) \<and>
         (\<not> success r \<longrightarrow> reason r \<noteq> None \<or> error r \<noteq> None)"
proof -
  from assms obtain signal where "webhookData = Some signal"
    by (cases webhookData) (simp_all add: executeBuy_def)
  with assms have "executeBuy w api (Some signal) st = (Inr r, st')"
    by simp
  then show ?thesis
  proof (cases rule: executeBuy_paths)
  case (failed e)
  then show ?thesis by (simp add: failure_def)
next
  case duplicate
  then show ?thesis by simp
next
  case (placed b st1 q)
  have "q \<in> set (filter (is_place_order api) (calls_between st st'))"
    by (simp add: placed(3))
  then have q: "q \<in> set (calls_between st st')"
    by simp
  show ?thesis
  proof (cases "axios_order w q")
    case (Inl e)
    with placed(6) show ?thesis by (simp add: failure_def)
  next
    case (Inr reply)
    with placed(4,6) q show ?thesis by auto
  qed
  qed
qed

theorem result_shape_witness:
  "fst (executeBuy (scenario (Num 50000) (Inr []) (Inr created)) trader (Some buy_signal) start)
     = Inr \<lparr>success = True, orderId = Some ''abc-123'', amount = Some (Num 5000),
             reason = None, error = None\<rparr>
   \<and> (\<exists>q reply.
         q \<in> set (calls_between start
                     (snd (executeBuy (scenario (Num 50000) (Inr []) (Inr created)) trader
                             (Some buy_signal) start))) \<and>
         is_place_order trader q \<and>
         axios_order (scenario (Num 50000) (Inr []) (Inr created)) q = Inr reply \<and>
         uuid reply = Some ''abc-123'')
   \<and> fst (executeBuy (scenario (Num 49990) (Inr []) (Inr created)) trader (Some buy_signal) start)
     = Inr \<lparr>success = False, orderId = None, amount = None, reason = None,
             error = Some (insufficient_message (scenario (Num 49990) (Inr []) (Inr created))
                             (Num 4999))\<rparr>
   \<and> error \<lparr>success = False, orderId = None, amount = None, reason = None,
             error = Some (insufficient_message (scenario (Num 49990) (Inr []) (Inr created))
                             (Num 4999))\<rparr> \<noteq> None"
proof -
  let ?w = "scenario (Num 50000) (Inr []) (Inr created)"
  let ?good = "executeBuy ?w trader (Some buy_signal) start"
  let ?poor = "executeBuy (scenario (Num 49990) (Inr []) (Inr created)) trader (Some buy_signal) start"
  have good: "?good = (Inr \<lparr>success = True, orderId = Some ''abc-123'', amount = Some (Num 5000),
             reason = None, error = None\<rparr>, snd ?good)"
    using end_to_end_success by (simp add: prod_eq_iff)
  have poor: "?poor = (Inr \<lparr>success = False, orderId = None, amount = None, reason = None,
             error = Some (insufficient_message (scenario (Num 49990) (Inr []) (Inr created))
                             (Num 4999))\<rparr>, snd ?poor)"
    using insufficient_run by (simp add: prod_eq_iff)
  from result_shape [OF good]
  have "\<exists>q reply. q \<in> set (calls_between start (snd ?good)) \<and> is_place_order trader q \<and>
          axios_order ?w q = Inr reply \<and> uuid reply = Some ''abc-123''"
    by auto
  moreover from result_shape [OF poor]
  have "error \<lparr>success = False, orderId = None, amount = None, reason = None,
             error = Some (insufficient_message (scenario (Num 49990) (Inr []) (Inr created))
                             (Num 4999))\<rparr> \<noteq> None"
    by simp
  ultimately show ?thesis
    using end_to_end_success insufficient_run by simp
qed

theorem result_shape_counterexample:
  "fst (executeBuy
          (scenario (Num 50000) (Inr [])
             (Inr \<lparr>uuid = None, side = ''bid'', state = ''wait'', created_at = None\<rparr>))
          trader (Some buy_signal) start)
     = Inr \<lparr>success = True, orderId = None, amount = Some (Num 5000),
             reason = None, error = None\<rparr>"
proof -
  have enough: "\<not> js_lt (buy_amount (Num 50000)) MIN_ORDER_AMOUNT"
    by (simp add: buy_amount_50000 MIN_ORDER_AMOUNT_def)
  show ?thesis
    by (subst executeBuy_placed [OF scenario_balance enough scenario_no_history
          scenario_place [OF enough]])
       (simp add: buy_amount_50000)
qed

text \<open>
  C10. When the buy amount is below \<open>MIN_ORDER_AMOUNT\<close>, the balance fetch is the only
  request of the run: neither the lookup of recent orders nor the order placement is sent.
\<close>

theorem insufficient_funds_single_call:
  assumes "getKrwBalance w api st = (Inr b, st1)"
    and "js_lt (buy_amount b) MIN_ORDER_AMOUNT"
  shows "\<exists>r. calls_between st (snd (executeBuy w api (Some signal) st)) = [r]
           \<and> is_balance_fetch api r \<and> \<not> is_orders_lookup api r \<and> \<not> is_place_order api r"
proof -
  obtain r where r: "sent st1 = sent st @ [r]" "is_balance_fetch api r"
    using getKrwBalance_calls [OF assms(1) getKrwBalance_key [OF assms(1)]] by blast
  have "snd (executeBuy w api (Some signal) st) = st1"
    by (simp add: executeBuy_insufficient [OF assms])
  then show ?thesis
    using r calls_between_app [OF r(1)]
    by (auto simp: balance_fetch_not_lookup balance_fetch_not_place)
qed

theorem insufficient_funds_single_call_witness:
  "\<exists>r. calls_between start
          (snd (executeBuy (scenario (Num 49990) (Inr [bought 1699999000000]) (Inr created))
                  trader (Some buy_signal) start)) = [r]
       \<and> is_balance_fetch trader r \<and> \<not> is_orders_lookup trader r \<and> \<not> is_place_order trader r"
proof -
  have low: "js_lt (buy_amount (Num 49990)) MIN_ORDER_AMOUNT"
    by (simp add: buy_amount_49990 MIN_ORDER_AMOUNT_def)
  show ?thesis
    by (rule insufficient_funds_single_call [OF scenario_balance low])
qed



text \<open>
  C6. A run of \<open>executeBuy\<close> sends at most one order placement. When the placement is
  raised as a failure, the run ends there with \<open>{success: false, error: message}\<close>, that
  one placement being the only one sent.
\<close>

theorem at_most_one_placement:
  "length (filter (is_place_order api)
             (calls_between st (snd (executeBuy w api webhookData st)))) \<le> 1
   \<and> (\<forall>b st1 st2 e st3.
         getKrwBalance w api st = (Inr b, st1) \<and> \<not> js_lt (buy_amount b) MIN_ORDER_AMOUNT \<and>
         checkDuplicateBuy w api st1 = (False, st2) \<and>
         placeBuyOrder w api TRADING_SYMBOL (buy_amount b) st2 = (Inl e, st3) \<longrightarrow>
           executeBuy w api (Some signal) st =
             (Inr \<lparr>success = False, orderId = None, amount = None, reason = None,
                    error = Some (message e)\<rparr>, st3)
           \<and> length (filter (is_place_order api) (calls_between st st3)) = 1)"
proof (intro conjI allI impI)
  show "length (filter (is_place_order api)
             (calls_between st (snd (executeBuy w api webhookData st)))) \<le> 1"
  proof (cases webhookData)
    case None
    then show ?thesis by (simp add: executeBuy_def calls_between_self)
  next
    case (Some sig)
    obtain r st' where run: "executeBuy w api (Some sig) st = (Inr r, st')"
      using executeBuy_returns by blast
    then have "length (filter (is_place_order api) (calls_between st st')) \<le> 1"
      by (cases rule: executeBuy_paths) simp_all
    with run Some show ?thesis by simp
  qed
next
  fix b st1 st2 e st3
  assume run: "getKrwBalance w api st = (Inr b, st1) \<and> \<not> js_lt (buy_amount b) MIN_ORDER_AMOUNT \<and>
         checkDuplicateBuy w api st1 = (False, st2) \<and>
         placeBuyOrder w api TRADING_SYMBOL (buy_amount b) st2 = (Inl e, st3)"
  then have bal: "getKrwBalance w api st = (Inr b, st1)"
    and enough: "\<not> js_lt (buy_amount b) MIN_ORDER_AMOUNT"
    and dup: "checkDuplicateBuy w api st1 = (False, st2)"
    and place: "placeBuyOrder w api TRADING_SYMBOL (buy_amount b) st2 = (Inl e, st3)"
    by simp_all
  show "executeBuy w api (Some signal) st =
          (Inr \<lparr>success = False, orderId = None, amount = None, reason = None,
                 error = Some (message e)\<rparr>, st3)"
    using executeBuy_placed [OF bal enough dup place, of signal]
    by (simp add: failure_def)
  note key = getKrwBalance_key [OF bal]
  obtain r1 where r1: "sent st1 = sent st @ [r1]" "\<not> is_place_order api r1"
    using getKrwBalance_calls [OF bal key] balance_fetch_not_place by blast
  obtain r2 where r2: "sent st2 = sent st1 @ [r2]" "\<not> is_place_order api r2"
    using checkDuplicateBuy_calls [OF dup key] by blast
  obtain r3 where r3: "sent st3 = sent st2 @ [r3]" "is_place_order api r3"
    using placeBuyOrder_calls [OF place enough key] by blast
  show "length (filter (is_place_order api) (calls_between st st3)) = 1"
    using r1 r2 r3 by (simp add: calls_between_def)
qed

theorem at_most_one_placement_witness:
  "length (filter (is_place_order trader)
      (calls_between start
         (snd (executeBuy (scenario (Num 50000) (Inr []) (Inl (Error ''Request failed with status code 400'')))
                 trader (Some buy_signal) start)))) = 1
   \<and> fst (executeBuy (scenario (Num 50000) (Inr []) (Inl (Error ''Request failed with status code 400'')))
            trader (Some buy_signal) start)
     = Inr \<lparr>success = False, orderId = None, amount = None, reason = None,
             error = Some ''Request failed with status code 400''\<rparr>"
proof -
  let ?w = "scenario (Num 50000) (Inr []) (Inl (Error ''Request failed with status code 400''))"
  let ?st1 = "snd (getKrwBalance ?w trader start)"
  let ?st2 = "snd (fetch_orders ?w trader TRADING_SYMBOL ?st1)"
  let ?st3 = "snd (placeBuyOrder ?w trader TRADING_SYMBOL (buy_amount (Num 50000)) ?st2)"
  have bal: "getKrwBalance ?w trader start = (Inr (Num 50000), ?st1)"
    by (rule scenario_balance)
  have enough: "\<not> js_lt (buy_amount (Num 50000)) MIN_ORDER_AMOUNT"
    by (simp add: buy_amount_50000 MIN_ORDER_AMOUNT_def)
  have dup: "checkDuplicateBuy ?w trader ?st1 = (False, ?st2)"
    by (rule scenario_no_history)
  have place: "placeBuyOrder ?w trader TRADING_SYMBOL (buy_amount (Num 50000)) ?st2
                 = (Inl (Error ''Request failed with status code 400''), ?st3)"
    by (rule scenario_place [OF enough])
  from at_most_one_placement [of trader start ?w "Some buy_signal" buy_signal]
  have "executeBuy ?w trader (Some buy_signal) start =
          (Inr \<lparr>success = False, orderId = None, amount = None, reason = None,
                 error = Some (message (Error ''Request failed with status code 400''))\<rparr>, ?st3)
        \<and> length (filter (is_place_order trader) (calls_between start ?st3)) = 1"
    using bal enough dup place by blast
  then show ?thesis by simp
qed




text \<open>
  C8, as the code has it. \<open>getRecentOrders\<close> asks the exchange for the last 100 orders of
  the market in state \<open>done\<close> or \<open>cancel\<close> and returns, in the exchange's order, exactly
  those whose creation time is a valid date at or after \<open>now - hours\<close>. There is no upper
  bound: an order stamped later than the local clock is returned as well. When
  \<open>now - hours\<close> is outside the \<open>Date\<close> range, nothing is returned.
\<close>

theorem recent_orders_since_cutoff:
  assumes "fetch_orders w api market st = (Inr orders, st')"
  shows "getRecentOrders w api market hours st =
           (Inr (if \<bar>Date_now w - hours * 3600000\<bar> \<le> 8640000000000000
                 then filter (\<lambda>ord. case created_at ord of
                                       None \<Rightarrow> False
                                     | Some t \<Rightarrow> Date_now w - hours * 3600000 \<le> t) orders
                 else []), st')
         \<and> (\<exists>r. sent st' = sent st @ [r] \<and> http_method r = ''GET'' \<and>
                url r = baseUrl api @ ''/v1/orders?'' @
                  query_string [(''market'', market), (''states'', ''done,cancel''),
                                (''limit'', ''100'')])"
proof -
  have "recent_of (Date_now w) hours orders =
          (if \<bar>Date_now w - hours * 3600000\<bar> \<le> 8640000000000000
           then filter (\<lambda>ord. case created_at ord of
                                 None \<Rightarrow> False
                               | Some t \<Rightarrow> Date_now w - hours * 3600000 \<le> t) orders
           else [])"
    by (auto simp: recent_of_def new_Date_def date_ge_def Let_def split: option.splits
          intro: filter_cong)
  then have "getRecentOrders w api market hours st =
           (Inr (if \<bar>Date_now w - hours * 3600000\<bar> \<le> 8640000000000000
                 then filter (\<lambda>ord. case created_at ord of
                                       None \<Rightarrow> False
                                     | Some t \<Rightarrow> Date_now w - hours * 3600000 \<le> t) orders
                 else []), st')"
    by (simp only: getRecentOrders_found [OF assms])
  moreover have "secretKey api \<noteq> []"
    using assms unfolding fetch_orders_def by (rule makeRequest_key)
  then have "\<exists>r. sent st' = sent st @ [r] \<and> http_method r = ''GET'' \<and>
                url r = baseUrl api @ ''/v1/orders?'' @
                  query_string [(''market'', market), (''states'', ''done,cancel''),
                                (''limit'', ''100'')]"
    using assms unfolding fetch_orders_def by (auto dest!: makeRequest_auth)
  ultimately show ?thesis by simp
qed

theorem recent_orders_since_cutoff_witness:
  "fst (getRecentOrders
          (scenario (Num 50000)
             (Inr [bought 1699998200000, bought 1699994600000,
                   \<lparr>uuid = Some ''c0de'', side = ''ask'', state = ''cancel'', created_at = None\<rparr>,
                   bought 1699996400000])
             (Inr created))
          trader TRADING_SYMBOL 1 start)
     = Inr [bought 1699998200000, bought 1699996400000]"
proof -
  let ?orders = "[bought 1699998200000, bought 1699994600000,
                  \<lparr>uuid = Some ''c0de'', side = ''ask'', state = ''cancel'', created_at = None\<rparr>,
                  bought 1699996400000]"
  let ?w = "scenario (Num 50000) (Inr ?orders) (Inr created)"
  have lookup: "fetch_orders ?w trader TRADING_SYMBOL start
                  = (Inr ?orders, snd (fetch_orders ?w trader TRADING_SYMBOL start))"
    by (rule scenario_lookup)
  from recent_orders_since_cutoff [OF lookup, of 1]
  have "fst (getRecentOrders ?w trader TRADING_SYMBOL 1 start) =
          Inr (if \<bar>Date_now ?w - 1 * 3600000\<bar> \<le> 8640000000000000
               then filter (\<lambda>ord. case created_at ord of
                                     None \<Rightarrow> False
                                   | Some t \<Rightarrow> Date_now ?w - 1 * 3600000 \<le> t) ?orders
               else [])"
    by simp
  then show ?thesis
    by (simp add: scenario_now bought_def)
qed

theorem recent_orders_counterexample:
  "fst (getRecentOrders (scenario (Num 50000) (Inr [bought 1700000000001]) (Inr created))
          trader TRADING_SYMBOL 1 start)
     = Inr [bought 1700000000001]
   \<and> Date_now (scenario (Num 50000) (Inr [bought 1700000000001]) (Inr created)) < 1700000000001
   \<and> fst (getRecentOrders (scenario (Num 50000) (Inr [bought 1700000000000]) (Inr created))
            trader TRADING_SYMBOL 2400472223 start)
     = Inr []
   \<and> Date_now (scenario (Num 50000) (Inr [bought 1700000000000]) (Inr created))
       - 2400472223 * 3600000 \<le> 1700000000000
   \<and> 1700000000000 \<le> Date_now (scenario (Num 50000) (Inr [bought 1700000000000]) (Inr created))"
proof -
  let ?ahead = "scenario (Num 50000) (Inr [bought 1700000000001]) (Inr created)"
  let ?wide = "scenario (Num 50000) (Inr [bought 1700000000000]) (Inr created)"
  have ahead: "fetch_orders ?ahead trader TRADING_SYMBOL start
          = (Inr [bought 1700000000001], snd (fetch_orders ?ahead trader TRADING_SYMBOL start))"
    by (rule scenario_lookup)
  have wide: "fetch_orders ?wide trader TRADING_SYMBOL start
          = (Inr [bought 1700000000000], snd (fetch_orders ?wide trader TRADING_SYMBOL start))"
    by (rule scenario_lookup)
  show ?thesis
    unfolding getRecentOrders_found [OF ahead] getRecentOrders_found [OF wide]
    by (simp add: recent_of_def new_Date_def date_ge_def scenario_now bought_def)
qed

text \<open>
  C5, as the code has it. Every authenticated call draws a fresh UUID. With a secret key,
  its request carries \<open>Authorization: Bearer <token>\<close>, the token signed with HS512 under
  the secret key over \<open>{access_key, nonce}\<close> with that UUID as nonce. When the query string
  is not empty, the payload also has \<open>query_hash\<close>, the hex SHA-512 of the query string, and
  \<open>query_hash_alg: "SHA512"\<close>; when it is empty, the payload has neither of the two.
  Without a secret key the signing throws and no request is sent. The query string of
  \<open>{market: "KRW-ETH", limit: "100"}\<close> is \<open>market=KRW-ETH&limit=100\<close>.
\<close>

theorem signed_request:
  assumes "makeRequest w api axios meth endpoint params True st = (res, st')"
  shows "uuids_drawn st' = Suc (uuids_drawn st) \<and>
         (secretKey api = [] \<longrightarrow>
            res = Inl (Error ''secretOrPrivateKey must have a value'') \<and> sent st' = sent st) \<and>
         (secretKey api \<noteq> [] \<longrightarrow>
            (\<exists>r. sent st' = sent st @ [r] \<and> res = axios r \<and>
               headers r =
                 [(''Content-Type'', Plain ''application/json''),
                  (''Authorization'',
                   Bearer (JWT \<lparr>access_key = accessKey api,
                                 nonce = randomUUID w (uuids_drawn st),
                                 query_hash = (if query_string params = [] then None
                                               else Some (SHA512_hex (query_string params))),
                                 query_hash_alg = (if query_string params = [] then None
                                                   else Some ''SHA512'')\<rparr>
                             (secretKey api)
                             \<lparr>algorithm = ''HS512'',
                              header = [(''alg'', ''HS512''), (''typ'', ''JWT'')]\<rparr>))])) \<and>
         query_string [(''market'', ''KRW-ETH''), (''limit'', ''100'')]
           = ''market=KRW-ETH&limit=100''"
proof -
  have example: "query_string [(''market'', ''KRW-ETH''), (''limit'', ''100'')]
          = ''market=KRW-ETH&limit=100''"
    by (simp add: query_string_def encodeURIComponent_def uri_unreserved_def)
  have drawn: "uuids_drawn st' = Suc (uuids_drawn st)"
    using makeRequest_auth [OF assms] makeRequest_unsigned [OF assms] by blast
  have unsigned: "res = Inl (Error ''secretOrPrivateKey must have a value'') \<and> sent st' = sent st"
    if "secretKey api = []"
    using makeRequest_unsigned [OF assms that] by simp
  have signed: "\<exists>r. sent st' = sent st @ [r] \<and> res = axios r \<and>
               headers r =
                 [(''Content-Type'', Plain ''application/json''),
                  (''Authorization'',
                   Bearer (JWT \<lparr>access_key = accessKey api,
                                 nonce = randomUUID w (uuids_drawn st),
                                 query_hash = (if query_string params = [] then None
                                               else Some (SHA512_hex (query_string params))),
                                 query_hash_alg = (if query_string params = [] then None
                                                   else Some ''SHA512'')\<rparr>
                             (secretKey api)
                             \<lparr>algorithm = ''HS512'',
                              header = [(''alg'', ''HS512''), (''typ'', ''JWT'')]\<rparr>))]"
    if key: "secretKey api \<noteq> []"
  proof (cases "params = []")
    case True
    then show ?thesis
      using assms key
      by (auto simp: makeRequest_def build_request_def generateJWT_def jwt_sign_def
            query_string_empty Let_def)
  next
    case False
    then have "query_string params \<noteq> []"
      by (simp add: query_string_empty)
    then show ?thesis
      using assms key False
      by (auto simp: makeRequest_def build_request_def generateJWT_def jwt_sign_def Let_def)
  qed
  show ?thesis
    using example drawn unsigned signed by blast
qed

theorem signed_request_witness:
  "map signed_payload
     (sent (snd (fetch_orders (scenario (Num 50000) (Inr []) (Inr created)) trader
                   TRADING_SYMBOL start)))
     = [Some \<lparr>access_key = ''access'', nonce = ''nonce-0'',
              query_hash = Some (SHA512_hex ''market=KRW-ETH&states=done%2Ccancel&limit=100''),
              query_hash_alg = Some ''SHA512''\<rparr>]
   \<and> uuids_drawn (snd (fetch_orders (scenario (Num 50000) (Inr []) (Inr created)) trader
                         TRADING_SYMBOL start)) = 1
   \<and> makeRequest (scenario (Num 50000) (Inr []) (Inr created))
        (trader\<lparr>secretKey := []\<rparr>)
        (axios_accounts (scenario (Num 50000) (Inr []) (Inr created)))
        ''GET'' ''/v1/accounts'' [] True start
     = (Inl (Error ''secretOrPrivateKey must have a value''), start\<lparr>uuids_drawn := 1\<rparr>)"
proof -
  let ?w = "scenario (Num 50000) (Inr []) (Inr created)"
  let ?params = "[(''market'', TRADING_SYMBOL), (''states'', ''done,cancel''), (''limit'', ''100'')]"
  let ?st' = "snd (fetch_orders ?w trader TRADING_SYMBOL start)"
  let ?unsigned = "makeRequest ?w (trader\<lparr>secretKey := []\<rparr>) (axios_accounts ?w)
                     ''GET'' ''/v1/accounts'' [] True start"
  have call: "makeRequest ?w trader (axios_orders ?w) ''GET'' ''/v1/orders'' ?params True start
                = (Inr [], ?st')"
    using scenario_lookup [of "Num 50000" "Inr []" "Inr created" TRADING_SYMBOL start]
    by (simp add: fetch_orders_def)
  have qs: "query_string ?params = ''market=KRW-ETH&states=done%2Ccancel&limit=100''"
    by (simp add: query_string_def encodeURIComponent_def uri_unreserved_def hex_digit_def
          TRADING_SYMBOL_def)
  have uuid0: "randomUUID ?w (uuids_drawn start) = ''nonce-0''"
    by (simp add: scenario_def start_def digits_eval)
  from signed_request [OF call] trader_key obtain r where
    "sent ?st' = sent start @ [r]"
    "signed_payload r = Some \<lparr>access_key = ''access'', nonce = ''nonce-0'',
              query_hash = Some (SHA512_hex ''market=KRW-ETH&states=done%2Ccancel&limit=100''),
              query_hash_alg = Some ''SHA512''\<rparr>"
    and drawn: "uuids_drawn ?st' = Suc (uuids_drawn start)"
    unfolding qs uuid0
    by (auto simp: signed_payload_def trader_def new_UpbitAPI_def)
  then have signed: "map signed_payload (sent ?st')
     = [Some \<lparr>access_key = ''access'', nonce = ''nonce-0'',
              query_hash = Some (SHA512_hex ''market=KRW-ETH&states=done%2Ccancel&limit=100''),
              query_hash_alg = Some ''SHA512''\<rparr>]"
    by (simp add: start_def)
  have "?unsigned = (fst ?unsigned, snd ?unsigned)"
    by simp
  from signed_request [OF this]
  have "fst ?unsigned = Inl (Error ''secretOrPrivateKey must have a value'')"
    "sent (snd ?unsigned) = sent start" "uuids_drawn (snd ?unsigned) = Suc (uuids_drawn start)"
    by simp_all
  then have "?unsigned = (Inl (Error ''secretOrPrivateKey must have a value''),
                          start\<lparr>uuids_drawn := 1\<rparr>)"
    by (simp add: prod_eq_iff start_def)
  with signed drawn show ?thesis
    by (simp add: start_def)
qed

theorem signed_request_counterexample:
  "map signed_payload
     (sent (snd (getAccounts (scenario (Num 50000) (Inr []) (Inr created)) trader start)))
     = [Some \<lparr>access_key = ''access'', nonce = ''nonce-0'',
              query_hash = None, query_hash_alg = None\<rparr>]"
  by (simp add: getAccounts_def makeRequest_def build_request_def generateJWT_def jwt_sign_def
        signed_payload_def scenario_def trader_def new_UpbitAPI_def start_def digits_eval Let_def)

text \<open>
  C2, as the code has it. Let the balance suffice and the lookup return \<open>orders\<close>. If some
  order with side \<open>bid\<close> and state \<open>done\<close> was created at or after \<open>now - 1h\<close> (an order
  stamped later than the local clock counts too), \<open>executeBuy\<close> returns \<open>{success: false}\<close>
  with the reason the code spells in Korean, and no placement is sent. If every such order is
  older than \<open>now - 1h\<close> or has no valid date, the run goes on to send one placement.
\<close>

theorem duplicate_guard:
  assumes "getKrwBalance w api st = (Inr b, st1)"
    and "\<not> js_lt (buy_amount b) MIN_ORDER_AMOUNT"
    and "fetch_orders w api TRADING_SYMBOL st1 = (Inr orders, st2)"
  shows "((\<exists>ord\<in>set orders. side ord = ''bid'' \<and> state ord = ''done'' \<and>
             (\<exists>t. created_at ord = Some t \<and>
                  Date_now w - DUPLICATE_PREVENTION_HOURS * 60 * 60 * 1000 \<le> t)) \<longrightarrow>
            executeBuy w api (Some signal) st =
              (Inr \<lparr>success = False, orderId = None, amount = None,
                     reason = Some [CHR 0xEC, CHR 0xA4, CHR 0x91, CHR 0xEB, CHR 0xB3, CHR 0xB5,
                                    CHR 0x20, CHR 0xEB, CHR 0xA7, CHR 0xA4, CHR 0xEC, CHR 0x88,
                                    CHR 0x98, CHR 0x20, CHR 0xEB, CHR 0xB0, CHR 0xA9, CHR 0xEC,
                                    CHR 0xA7, CHR 0x80],
                     error = None\<rparr>, st2)
            \<and> filter (is_place_order api) (calls_between st st2) = [])
       \<and> ((\<forall>ord\<in>set orders. side ord = ''bid'' \<and> state ord = ''done'' \<longrightarrow>
              (\<forall>t. created_at ord = Some t \<longrightarrow>
                   t < Date_now w - DUPLICATE_PREVENTION_HOURS * 60 * 60 * 1000)) \<longrightarrow>
            (\<exists>q st3. snd (executeBuy w api (Some signal) st) = st3 \<and>
               calls_between st2 st3 = [q] \<and> is_place_order api q \<and>
               data q = Some [(''market'', TRADING_SYMBOL), (''side'', ''bid''),
                              (''ord_type'', ''price''), (''price'', toString w (buy_amount b))]))"
proof (intro conjI impI)
  note key = getKrwBalance_key [OF assms(1)]
  assume recent: "\<exists>ord\<in>set orders. side ord = ''bid'' \<and> state ord = ''done'' \<and>
             (\<exists>t. created_at ord = Some t \<and>
                  Date_now w - DUPLICATE_PREVENTION_HOURS * 60 * 60 * 1000 \<le> t)"
  then have dup: "checkDuplicateBuy w api st1 = (True, st2)"
    unfolding checkDuplicateBuy_found [OF assms(3)]
    by (simp add: DUPLICATE_PREVENTION_HOURS_def)
  show "executeBuy w api (Some signal) st =
          (Inr \<lparr>success = False, orderId = None, amount = None,
                 reason = Some [CHR 0xEC, CHR 0xA4, CHR 0x91, CHR 0xEB, CHR 0xB3, CHR 0xB5,
                                CHR 0x20, CHR 0xEB, CHR 0xA7, CHR 0xA4, CHR 0xEC, CHR 0x88,
                                CHR 0x98, CHR 0x20, CHR 0xEB, CHR 0xB0, CHR 0xA9, CHR 0xEC,
                                CHR 0xA7, CHR 0x80],
                 error = None\<rparr>, st2)"
    using executeBuy_duplicate [OF assms(1,2) dup, of signal]
    by (simp add: duplicate_reason_def)
  obtain r1 where r1: "sent st1 = sent st @ [r1]" "\<not> is_place_order api r1"
    using getKrwBalance_calls [OF assms(1) key] balance_fetch_not_place by blast
  obtain r2 where r2: "sent st2 = sent st1 @ [r2]" "\<not> is_place_order api r2"
    using fetch_orders_calls [OF assms(3) key] by blast
  show "filter (is_place_order api) (calls_between st st2) = []"
    using r1 r2 by (simp add: calls_between_def)
next
  note key = getKrwBalance_key [OF assms(1)]
  assume old: "\<forall>ord\<in>set orders. side ord = ''bid'' \<and> state ord = ''done'' \<longrightarrow>
              (\<forall>t. created_at ord = Some t \<longrightarrow>
                   t < Date_now w - DUPLICATE_PREVENTION_HOURS * 60 * 60 * 1000)"
  then have dup: "checkDuplicateBuy w api st1 = (False, st2)"
    unfolding checkDuplicateBuy_found [OF assms(3)]
    by (fastforce simp: DUPLICATE_PREVENTION_HOURS_def)
  obtain res st3 where place: "placeBuyOrder w api TRADING_SYMBOL (buy_amount b) st2 = (res, st3)"
    by (cases "placeBuyOrder w api TRADING_SYMBOL (buy_amount b) st2")
  obtain q where q: "sent st3 = sent st2 @ [q]" "is_place_order api q"
      "data q = Some [(''market'', TRADING_SYMBOL), (''side'', ''bid''),
                      (''ord_type'', ''price''), (''price'', toString w (buy_amount b))]"
    using placeBuyOrder_calls [OF place assms(2) key] by blast
  have "snd (executeBuy w api (Some signal) st) = st3"
    by (simp add: executeBuy_placed [OF assms(1,2) dup place])
  then show "\<exists>q st3. snd (executeBuy w api (Some signal) st) = st3 \<and>
               calls_between st2 st3 = [q] \<and> is_place_order api q \<and>
               data q = Some [(''market'', TRADING_SYMBOL), (''side'', ''bid''),
                              (''ord_type'', ''price''), (''price'', toString w (buy_amount b))]"
    using q calls_between_app [OF q(1)] by simp
qed

theorem duplicate_guard_witness:
  "fst (executeBuy (scenario (Num 50000) (Inr [bought 1699998200000]) (Inr created))
          trader (Some buy_signal) start)
     = Inr \<lparr>success = False, orderId = None, amount = None,
             reason = Some [CHR 0xEC, CHR 0xA4, CHR 0x91, CHR 0xEB, CHR 0xB3, CHR 0xB5,
                            CHR 0x20, CHR 0xEB, CHR 0xA7, CHR 0xA4, CHR 0xEC, CHR 0x88,
                            CHR 0x98, CHR 0x20, CHR 0xEB, CHR 0xB0, CHR 0xA9, CHR 0xEC,
                            CHR 0xA7, CHR 0x80],
             error = None\<rparr>
   \<and> filter (is_place_order trader)
       (calls_between start
          (snd (executeBuy (scenario (Num 50000) (Inr [bought 1699998200000]) (Inr created))
                  trader (Some buy_signal) start))) = []
   \<and> (\<exists>q. calls_between
             (snd (fetch_orders (scenario (Num 50000) (Inr [bought 1699994600000]) (Inr created))
                     trader TRADING_SYMBOL
                     (snd (getKrwBalance
                             (scenario (Num 50000) (Inr [bought 1699994600000]) (Inr created))
                             trader start))))
             (snd (executeBuy (scenario (Num 50000) (Inr [bought 1699994600000]) (Inr created))
                     trader (Some buy_signal) start)) = [q]
          \<and> is_place_order trader q
          \<and> data q = Some [(''market'', ''KRW-ETH''), (''side'', ''bid''),
                           (''ord_type'', ''price''), (''price'', ''5000'')])"
proof -
  let ?near = "scenario (Num 50000) (Inr [bought 1699998200000]) (Inr created)"
  let ?far = "scenario (Num 50000) (Inr [bought 1699994600000]) (Inr created)"
  let ?n1 = "snd (getKrwBalance ?near trader start)"
  let ?n2 = "snd (fetch_orders ?near trader TRADING_SYMBOL ?n1)"
  let ?f1 = "snd (getKrwBalance ?far trader start)"
  let ?f2 = "snd (fetch_orders ?far trader TRADING_SYMBOL ?f1)"
  have enough: "\<not> js_lt (buy_amount (Num 50000)) MIN_ORDER_AMOUNT"
    by (simp add: buy_amount_50000 MIN_ORDER_AMOUNT_def)
  have nbal: "getKrwBalance ?near trader start = (Inr (Num 50000), ?n1)"
    by (rule scenario_balance)
  have nlook: "fetch_orders ?near trader TRADING_SYMBOL ?n1 = (Inr [bought 1699998200000], ?n2)"
    by (rule scenario_lookup)
  have fbal: "getKrwBalance ?far trader start = (Inr (Num 50000), ?f1)"
    by (rule scenario_balance)
  have flook: "fetch_orders ?far trader TRADING_SYMBOL ?f1 = (Inr [bought 1699994600000], ?f2)"
    by (rule scenario_lookup)
  have recent: "\<exists>ord\<in>set [bought 1699998200000]. side ord = ''bid'' \<and> state ord = ''done'' \<and>
             (\<exists>t. created_at ord = Some t \<and>
                  Date_now ?near - DUPLICATE_PREVENTION_HOURS * 60 * 60 * 1000 \<le> t)"
    by (simp add: bought_def scenario_now DUPLICATE_PREVENTION_HOURS_def)
  have old: "\<forall>ord\<in>set [bought 1699994600000]. side ord = ''bid'' \<and> state ord = ''done'' \<longrightarrow>
              (\<forall>t. created_at ord = Some t \<longrightarrow>
                   t < Date_now ?far - DUPLICATE_PREVENTION_HOURS * 60 * 60 * 1000)"
    by (simp add: bought_def scenario_now DUPLICATE_PREVENTION_HOURS_def)
  have price: "toString ?far (buy_amount (Num 50000)) = ''5000''"
    by (simp add: buy_amount_50000 scenario_toString digits_eval)
  from duplicate_guard [OF nbal enough nlook, of buy_signal] recent
  have near: "executeBuy ?near trader (Some buy_signal) start =
          (Inr \<lparr>success = False, orderId = None, amount = None,
                 reason = Some [CHR 0xEC, CHR 0xA4, CHR 0x91, CHR 0xEB, CHR 0xB3, CHR 0xB5,
                                CHR 0x20, CHR 0xEB, CHR 0xA7, CHR 0xA4, CHR 0xEC, CHR 0x88,
                                CHR 0x98, CHR 0x20, CHR 0xEB, CHR 0xB0, CHR 0xA9, CHR 0xEC,
                                CHR 0xA7, CHR 0x80],
                 error = None\<rparr>, ?n2)"
    and quiet: "filter (is_place_order trader) (calls_between start ?n2) = []"
    by blast+
  from duplicate_guard [OF fbal enough flook, of buy_signal] old
  obtain q where "calls_between ?f2 (snd (executeBuy ?far trader (Some buy_signal) start)) = [q]"
    "is_place_order trader q"
    "data q = Some [(''market'', TRADING_SYMBOL), (''side'', ''bid''),
                    (''ord_type'', ''price''), (''price'', toString ?far (buy_amount (Num 50000)))]"
    by blast
  then have far: "\<exists>q. calls_between ?f2 (snd (executeBuy ?far trader (Some buy_signal) start)) = [q]
          \<and> is_place_order trader q
          \<and> data q = Some [(''market'', ''KRW-ETH''), (''side'', ''bid''),
                           (''ord_type'', ''price''), (''price'', ''5000'')]"
    unfolding price by (auto simp: TRADING_SYMBOL_def)
  show ?thesis
    using near quiet far by simp
qed

theorem duplicate_guard_counterexample:
  "fst (executeBuy (scenario (Num 50000) (Inr [bought 1699998200000]) (Inr created))
          trader (Some buy_signal) start)
     \<noteq> Inr \<lparr>success = False, orderId = None, amount = None,
             reason = Some ''duplicate_prevented'', error = None\<rparr>
   \<and> Date_now (scenario (Num 50000) (Inr [bought 1700000000001]) (Inr created)) < 1700000000001
   \<and> fst (executeBuy (scenario (Num 50000) (Inr [bought 1700000000001]) (Inr created))
            trader (Some buy_signal) start)
     = Inr \<lparr>success = False, orderId = None, amount = None,
             reason = Some duplicate_reason, error = None\<rparr>"
proof -
  let ?near = "scenario (Num 50000) (Inr [bought 1699998200000]) (Inr created)"
  let ?ahead = "scenario (Num 50000) (Inr [bought 1700000000001]) (Inr created)"
  have enough: "\<not> js_lt (buy_amount (Num 50000)) MIN_ORDER_AMOUNT"
    by (simp add: buy_amount_50000 MIN_ORDER_AMOUNT_def)
  have ndup: "checkDuplicateBuy ?near trader (snd (getKrwBalance ?near trader start))
      = (True, snd (fetch_orders ?near trader TRADING_SYMBOL (snd (getKrwBalance ?near trader start))))"
    unfolding checkDuplicateBuy_found [OF scenario_lookup]
    by (simp add: bought_def scenario_now)
  have adup: "checkDuplicateBuy ?ahead trader (snd (getKrwBalance ?ahead trader start))
      = (True, snd (fetch_orders ?ahead trader TRADING_SYMBOL (snd (getKrwBalance ?ahead trader start))))"
    unfolding checkDuplicateBuy_found [OF scenario_lookup]
    by (simp add: bought_def scenario_now)
  have "fst (executeBuy ?near trader (Some buy_signal) start)
          = Inr \<lparr>success = False, orderId = None, amount = None,
                  reason = Some duplicate_reason, error = None\<rparr>"
    by (simp add: executeBuy_duplicate [OF scenario_balance enough ndup])
  moreover have "fst (executeBuy ?ahead trader (Some buy_signal) start)
          = Inr \<lparr>success = False, orderId = None, amount = None,
                  reason = Some duplicate_reason, error = None\<rparr>"
    by (simp add: executeBuy_duplicate [OF scenario_balance enough adup])
  moreover have "duplicate_reason \<noteq> ''duplicate_prevented''"
    by (simp add: duplicate_reason_def)
  ultimately show ?thesis
    by (simp add: scenario_now)
qed

end
